theory Spec2Isabelle
  imports Main "HOL-Library.Sublist"
begin

section \<open>Strings with deploy-time tokens\<close>

text \<open>
  The stack is a declaration: constructing it computes resource configurations. A
  property such as \<open>eventLake.bucketName\<close> is not a string yet but a token that the
  provisioning engine resolves at deploy time. A template literal that embeds such a
  property is therefore a sequence of literal pieces and tokens.
\<close>

datatype token =
    Ref string              \<comment> \<open>the default attribute of the construct with this id\<close>
  | GetAtt string string    \<comment> \<open>a named attribute of the construct with this id\<close>
  | AwsRegion               \<comment> \<open>the region of an environment-agnostic stack\<close>
  | AwsAccountId            \<comment> \<open>the account of an environment-agnostic stack\<close>

datatype frag = Lit string | Tok token

type_synonym cdk_string = "frag list"

fun resolve_frag :: "(token \<Rightarrow> string) \<Rightarrow> frag \<Rightarrow> string" where
  "resolve_frag \<rho> (Lit s) = s"
| "resolve_frag \<rho> (Tok t) = \<rho> t"

definition resolve :: "(token \<Rightarrow> string) \<Rightarrow> cdk_string \<Rightarrow> string" where
  "resolve \<rho> fs = concat (map (resolve_frag \<rho>) fs)"

fun refs_frag :: "frag \<Rightarrow> string list" where
  "refs_frag (Lit s) = []"
| "refs_frag (Tok (Ref i)) = [i]"
| "refs_frag (Tok (GetAtt i a)) = [i]"
| "refs_frag (Tok AwsRegion) = []"
| "refs_frag (Tok AwsAccountId) = []"

definition refs :: "cdk_string \<Rightarrow> string list" where
  "refs fs = concat (map refs_frag fs)"

section \<open>Props of the stack\<close>

record Environment =
  account :: "string option"
  region :: "string option"

text \<open>\<open>EventHubProps extends cdk.StackProps\<close>: of the inherited props only \<open>env\<close> is read.\<close>

record EventHubProps =
  env :: "Environment option"
  serviceName :: string
  stage :: string

text \<open>\<open>this.region\<close> and \<open>this.account\<close>: the value of \<open>env\<close> when given, a token otherwise.\<close>

definition stack_region :: "EventHubProps \<Rightarrow> frag" where
  "stack_region props =
     (case env props of
        None \<Rightarrow> Tok AwsRegion
      | Some e \<Rightarrow> (case region e of None \<Rightarrow> Tok AwsRegion | Some r \<Rightarrow> Lit r))"

definition stack_account :: "EventHubProps \<Rightarrow> frag" where
  "stack_account props =
     (case env props of
        None \<Rightarrow> Tok AwsAccountId
      | Some e \<Rightarrow> (case account e of None \<Rightarrow> Tok AwsAccountId | Some a \<Rightarrow> Lit a))"

section \<open>Resource configurations\<close>

datatype ParameterTier = STANDARD | ADVANCED | INTELLIGENT_TIERING

record StringParameterProps =
  parameterName :: string
  stringValue :: cdk_string
  tier :: "ParameterTier option"

subsection \<open>Event patterns\<close>

datatype json =
    JNull
  | JBool bool
  | JNum int
  | JStr string
  | JArr "json list"
  | JObj "(string \<times> json) list"

text \<open>The content filters of a field: \<open>{ exists: b }\<close>, or a value to equal.\<close>

datatype matcher = Exists bool | Equals json

record EventPattern =
  source :: "string list option"
  detailType :: "string list option"
  detail :: "(string \<times> matcher list) list option"

record ArchiveProps =
  sourceEventBus :: string
  eventPattern :: EventPattern

subsection \<open>Bucket and delivery stream\<close>

datatype RemovalPolicy = DESTROY | RETAIN | SNAPSHOT | RETAIN_ON_UPDATE_OR_DELETE

record BucketProps =
  removalPolicy :: "RemovalPolicy option"
  versioned :: "bool option"

record DeliveryStreamProps =
  destination_bucket :: string
  dataOutputPrefix :: "cdk_string option"
  errorOutputPrefix :: "cdk_string option"

subsection \<open>Catalog database, crawler and table\<close>

record CfnDatabaseProps =
  db_catalogId :: frag
  db_name :: string

record RoleProps =
  assumedBy :: string
  managedPolicies :: "string list"

record CfnCrawlerProps =
  role :: cdk_string
  crawler_databaseName :: cdk_string
  s3Targets :: "cdk_string list"
  updateBehavior :: string
  deleteBehavior :: string

record Column =
  col_name :: string
  col_type :: string

record StorageDescriptor =
  location :: cdk_string
  inputFormat :: string
  outputFormat :: string
  serializationLibrary :: string
  columns :: "Column list"

record CfnTableProps =
  catalogId :: frag
  databaseName :: cdk_string
  table_name :: string
  tableType :: string
  parameters :: "(string \<times> cdk_string) list"
  storageDescriptor :: StorageDescriptor
  partitionKeys :: "Column list"

subsection \<open>The construct tree\<close>

datatype construct =
    EventBus
  | StringParameter StringParameterProps
  | Archive ArchiveProps
  | Bucket BucketProps
  | DeliveryStream DeliveryStreamProps
  | CfnDatabase CfnDatabaseProps
  | Role RoleProps
  | CfnCrawler CfnCrawlerProps
  | CfnTable CfnTableProps

text \<open>
  The state that the constructor builds up: the constructs added to the stack, in the
  order of their creation, the read grants (bucket, grantee) and the explicit
  dependencies (dependent, target).
\<close>

record stack =
  constructs :: "(string \<times> construct) list"
  grants :: "(string \<times> string) list"
  dependencies :: "(string \<times> string) list"

definition empty_stack :: stack where
  "empty_stack = \<lparr>constructs = [], grants = [], dependencies = []\<rparr>"

definition add :: "string \<Rightarrow> construct \<Rightarrow> stack \<Rightarrow> stack" where
  "add i c s = s\<lparr>constructs := constructs s @ [(i, c)]\<rparr>"

definition grantRead :: "string \<Rightarrow> string \<Rightarrow> stack \<Rightarrow> stack" where
  "grantRead bucket grantee s = s\<lparr>grants := grants s @ [(bucket, grantee)]\<rparr>"

definition addDependency :: "string \<Rightarrow> string \<Rightarrow> stack \<Rightarrow> stack" where
  "addDependency dependent target s =
     s\<lparr>dependencies := dependencies s @ [(dependent, target)]\<rparr>"

section \<open>The stack\<close>

text \<open>
  The constructor of \<open>EventHub\<close>, statement by statement: what it declares when no
  library construct refuses its props. The constructs are kept under the ids that the
  source gives them; the scope and the id of the stack itself are not part of the model.
  The checks by which a library construct throws are those of \<open>new_EventHub\<close> below.
\<close>

definition archive_pattern :: EventPattern where
  "archive_pattern =
     \<lparr>source = Some [''custom''],
      detailType = None,
      detail = Some [(''detail-type'', [Exists True])]\<rparr>"

definition events_parameters :: "frag \<Rightarrow> frag \<Rightarrow> (string \<times> cdk_string) list" where
  "events_parameters bucketName reg =
     [(''projection.enabled'', [Lit ''true'']),
      (''projection.datehour.type'', [Lit ''date'']),
      (''projection.datehour.format'', [Lit ''yyyy/MM/dd/HH'']),
      (''projection.datehour.range'', [Lit ''2024/01/01/00,NOW'']),
      (''projection.datehour.interval'', [Lit ''1'']),
      (''projection.datehour.interval.unit'', [Lit ''HOURS'']),
      (''storage.location.template'',
         [Lit ''s3://'', bucketName, Lit ''/'', reg, Lit ''/${datehour}/'']),
      (''case.insensitive'', [Lit ''FALSE''])]"

definition events_table :: "EventHubProps \<Rightarrow> frag \<Rightarrow> frag \<Rightarrow> CfnTableProps" where
  "events_table props bucketName databaseRef =
     \<lparr>catalogId = stack_account props,
      databaseName = [databaseRef],
      table_name = ''events'',
      tableType = ''EXTERNAL_TABLE'',
      parameters = events_parameters bucketName (stack_region props),
      storageDescriptor =
        \<lparr>location = [Lit ''s3://'', bucketName, Lit ''/'', stack_region props, Lit ''/''],
         inputFormat = ''org.apache.hadoop.mapred.TextInputFormat'',
         outputFormat = ''org.apache.hadoop.hive.ql.io.HiveIgnoreKeyTextOutputFormat'',
         serializationLibrary = ''org.openx.data.jsonserde.JsonSerDe'',
         columns =
           [\<lparr>col_name = ''timestamp'', col_type = ''bigint''\<rparr>,
            \<lparr>col_name = ''type'', col_type = ''string''\<rparr>,
            \<lparr>col_name = ''data'', col_type = ''string''\<rparr>,
            \<lparr>col_name = ''from'', col_type = ''string''\<rparr>]\<rparr>,
      partitionKeys = [\<lparr>col_name = ''datehour'', col_type = ''string''\<rparr>]\<rparr>"

definition EventHub :: "EventHubProps \<Rightarrow> stack" where
  "EventHub props =
    (let s = empty_stack;
         s = add ''Bus'' EventBus s;
         eventBusArn = Tok (GetAtt ''Bus'' ''Arn'');
         s = add ''BusArn'' (StringParameter
               \<lparr>parameterName = ''/vimo/'' @ stage props @ ''/event-bus-arn'',
                stringValue = [eventBusArn],
                tier = Some ADVANCED\<rparr>) s;
         s = add ''ArchiveEventLake'' (Archive
               \<lparr>sourceEventBus = ''Bus'', eventPattern = archive_pattern\<rparr>) s;
         s = add ''EventLake'' (Bucket
               \<lparr>removalPolicy = Some RETAIN, versioned = None\<rparr>) s;
         bucketName = Tok (Ref ''EventLake'');
         s = add ''EventLakeName'' (StringParameter
               \<lparr>parameterName = ''/vimo/'' @ stage props @ ''/event-lake-name'',
                stringValue = [bucketName],
                tier = None\<rparr>) s;
         s = add ''DeliveryStream'' (DeliveryStream
               \<lparr>destination_bucket = ''EventLake'',
                dataOutputPrefix = Some [stack_region props, Lit ''/''],
                errorOutputPrefix = None\<rparr>) s;
         s = add ''EventLakeDatabase'' (CfnDatabase
               \<lparr>db_catalogId = stack_account props,
                db_name = ''event_lake_'' @ stage props\<rparr>) s;
         databaseRef = Tok (Ref ''EventLakeDatabase'');
         s = add ''GlueCrawlerRole'' (Role
               \<lparr>assumedBy = ''glue.amazonaws.com'',
                managedPolicies = [''service-role/AWSGlueServiceRole'']\<rparr>) s;
         s = grantRead ''EventLake'' ''GlueCrawlerRole'' s;
         s = add ''EventLakeCrawler'' (CfnCrawler
               \<lparr>role = [Tok (GetAtt ''GlueCrawlerRole'' ''Arn'')],
                crawler_databaseName = [databaseRef],
                s3Targets = [[Lit ''s3://'', bucketName, Lit ''/'']],
                updateBehavior = ''UPDATE_IN_DATABASE'',
                deleteBehavior = ''DEPRECATE_IN_DATABASE''\<rparr>) s;
         s = add ''GlueDatabaseName'' (StringParameter
               \<lparr>parameterName = ''/vimo/'' @ stage props @ ''/glue-database-name'',
                stringValue = [databaseRef],
                tier = None\<rparr>) s;
         s = add ''GlueCrawlerName'' (StringParameter
               \<lparr>parameterName = ''/vimo/'' @ stage props @ ''/glue-crawler-name'',
                stringValue = [Tok (Ref ''EventLakeCrawler'')],
                tier = None\<rparr>) s;
         s = add ''EventsTable'' (CfnTable (events_table props bucketName databaseRef)) s;
         s = addDependency ''EventsTable'' ''EventLakeDatabase'' s;
         s = add ''GlueTableName'' (StringParameter
               \<lparr>parameterName = ''/vimo/'' @ stage props @ ''/glue-table-name'',
                stringValue = [Tok (Ref ''EventsTable'')],
                tier = None\<rparr>) s
     in s)"

text \<open>Looking a construct up by its id, and the constructs of one kind.\<close>

definition construct_of :: "stack \<Rightarrow> string \<Rightarrow> construct option" where
  "construct_of s i = map_of (constructs s) i"

fun bucket_of :: "construct option \<Rightarrow> BucketProps option" where
  "bucket_of (Some (Bucket b)) = Some b"
| "bucket_of _ = None"

fun buckets :: "(string \<times> construct) list \<Rightarrow> (string \<times> BucketProps) list" where
  "buckets [] = []"
| "buckets ((i, Bucket b) # cs) = (i, b) # buckets cs"
| "buckets (_ # cs) = buckets cs"

text \<open>
  The library turns versioning on only when \<open>versioned\<close> is given and true; a bucket
  declared without the prop is unversioned.
\<close>

definition versioning_enabled :: "BucketProps \<Rightarrow> bool" where
  "versioning_enabled b = (versioned b = Some True)"

section \<open>Partition projection\<close>

text \<open>
  The query engine reads the table's parameters: for a partition key of projection type
  \<open>date\<close> it generates the partition values by formatting points in time with the
  parameter \<open>projection.<key>.format\<close>, and it finds the objects of a partition by
  replacing \<open>${<key>}\<close> in \<open>storage.location.template\<close> by the value.
\<close>

record datehour =
  year :: nat
  month :: nat
  day :: nat
  hour :: nat

definition digit :: "nat \<Rightarrow> char" where
  "digit d = ''0123456789'' ! d"

function dec :: "nat \<Rightarrow> string" where
  "dec n = (if n < 10 then [digit n] else dec (n div 10) @ [digit (n mod 10)])"
  by pat_completeness auto
termination
  by (relation "measure id") auto

declare dec.simps [simp del]

text \<open>A number in at least \<open>w\<close> digits, zero-padded on the left.\<close>

definition pad :: "nat \<Rightarrow> nat \<Rightarrow> string" where
  "pad w v = replicate (w - length (dec v)) CHR ''0'' @ dec v"

text \<open>
  A format string is read in runs of one letter: a run of \<open>y\<close>, \<open>M\<close>, \<open>d\<close> or \<open>H\<close> of
  length \<open>n\<close> is the year, month, day or hour in \<open>n\<close> digits, anything else stands for
  itself.
\<close>

definition render_field :: "char \<Rightarrow> nat \<Rightarrow> datehour \<Rightarrow> string" where
  "render_field c n t =
     (if c = CHR ''y'' then pad n (year t)
      else if c = CHR ''M'' then pad n (month t)
      else if c = CHR ''d'' then pad n (day t)
      else if c = CHR ''H'' then pad n (hour t)
      else replicate n c)"

function format_date :: "string \<Rightarrow> datehour \<Rightarrow> string" where
  "format_date [] t = []"
| "format_date (c # cs) t =
     render_field c (Suc (length (takeWhile ((=) c) cs))) t
       @ format_date (dropWhile ((=) c) cs) t"
  by pat_completeness auto
termination
  by (relation "measure (\<lambda>(p, t). length p)") (auto simp: length_dropWhile_le less_Suc_eq_le)

definition placeholder :: "string \<Rightarrow> string" where
  "placeholder k = ''${'' @ k @ ''}''"

text \<open>Every occurrence of \<open>ph\<close> in a string replaced by \<open>v\<close>, left to right.\<close>

function substitute :: "string \<Rightarrow> string \<Rightarrow> string \<Rightarrow> string" where
  "substitute ph v [] = []"
| "substitute ph v (c # cs) =
     (if ph \<noteq> [] \<and> prefix ph (c # cs)
      then v @ substitute ph v (drop (length ph) (c # cs))
      else c # substitute ph v cs)"
  by pat_completeness auto
termination
  by (relation "measure (\<lambda>(ph, v, s). length s)") (auto simp: neq_Nil_conv)

definition resolved_parameters ::
  "(token \<Rightarrow> string) \<Rightarrow> CfnTableProps \<Rightarrow> (string \<times> string) list" where
  "resolved_parameters \<rho> tbl = map (\<lambda>(k, v). (k, resolve \<rho> v)) (parameters tbl)"

definition projected_value ::
  "(string \<times> string) list \<Rightarrow> string \<Rightarrow> datehour \<Rightarrow> string option" where
  "projected_value ps k t =
     (if map_of ps ''projection.enabled'' = Some ''true''
         \<and> map_of ps (''projection.'' @ k @ ''.type'') = Some ''date''
      then map_option (\<lambda>f. format_date f t) (map_of ps (''projection.'' @ k @ ''.format''))
      else None)"

fun substitute_keys ::
  "(string \<times> string) list \<Rightarrow> string list \<Rightarrow> datehour \<Rightarrow> string \<Rightarrow> string option" where
  "substitute_keys ps [] t s = Some s"
| "substitute_keys ps (k # ks) t s =
     (case projected_value ps k t of
        None \<Rightarrow> None
      | Some v \<Rightarrow> substitute_keys ps ks t (substitute (placeholder k) v s))"

definition partition_location ::
  "(token \<Rightarrow> string) \<Rightarrow> CfnTableProps \<Rightarrow> datehour \<Rightarrow> string option" where
  "partition_location \<rho> tbl t =
     (let ps = resolved_parameters \<rho> tbl in
      case map_of ps ''storage.location.template'' of
        None \<Rightarrow> None
      | Some tmpl \<Rightarrow> substitute_keys ps (map col_name (partitionKeys tbl)) t tmpl)"

text \<open>The start and the end of a projection range, written \<open>start,end\<close>.\<close>

definition split_range :: "string \<Rightarrow> string \<times> string" where
  "split_range s =
     (takeWhile (\<lambda>c. c \<noteq> CHR '','') s, drop 1 (dropWhile (\<lambda>c. c \<noteq> CHR '','') s))"

fun table_of :: "construct option \<Rightarrow> CfnTableProps option" where
  "table_of (Some (CfnTable t)) = Some t"
| "table_of _ = None"

fun stream_of :: "construct option \<Rightarrow> DeliveryStreamProps option" where
  "stream_of (Some (DeliveryStream d)) = Some d"
| "stream_of _ = None"

text \<open>
  Modelled from the spec: the object keys that the delivery service gives to the records
  of an hour are not declared in the source. The stream overrides none of the settings
  of the service but the output prefix (defaults apply), and the layout of the object
  store is \<open><region>/<yyyy>/<MM>/<dd>/<HH>/\<close>: after a prefix that holds no expression
  \<open>!{...}\<close> the service puts the year, month, day and hour of the record.
\<close>

definition default_time_prefix :: "datehour \<Rightarrow> string" where
  "default_time_prefix t =
     pad 4 (year t) @ ''/'' @ pad 2 (month t) @ ''/'' @ pad 2 (day t) @ ''/''
       @ pad 2 (hour t) @ ''/''"

fun has_expression :: "string \<Rightarrow> bool" where
  "has_expression [] = False"
| "has_expression (c # cs) = (prefix ''!{'' (c # cs) \<or> has_expression cs)"

text \<open>
  Where the delivery stream writes the records of an hour: in its destination bucket,
  under the declared output prefix followed by the time prefix of the service. The
  evaluation of a prefix that holds expressions is not part of this model (\<open>None\<close>).
\<close>

definition delivery_location ::
  "(token \<Rightarrow> string) \<Rightarrow> DeliveryStreamProps \<Rightarrow> datehour \<Rightarrow> string option" where
  "delivery_location \<rho> d t =
     (let p = (case dataOutputPrefix d of None \<Rightarrow> [] | Some x \<Rightarrow> resolve \<rho> x) in
      if has_expression p then None
      else Some (''s3://'' @ \<rho> (Ref (destination_bucket d)) @ ''/'' @ p
                  @ default_time_prefix t))"

fun database_of :: "construct option \<Rightarrow> CfnDatabaseProps option" where
  "database_of (Some (CfnDatabase d)) = Some d"
| "database_of _ = None"

text \<open>
  The bucket and the region that the tokens of the stack stand for at deploy time name
  real resources: neither contains the character that opens a placeholder.
\<close>

definition placeholder_free :: "(token \<Rightarrow> string) \<Rightarrow> EventHubProps \<Rightarrow> bool" where
  "placeholder_free \<rho> props =
     (CHR ''$'' \<notin> set (\<rho> (Ref ''EventLake''))
      \<and> CHR ''$'' \<notin> set (resolve_frag \<rho> (stack_region props)))"

section \<open>Event matching\<close>

text \<open>
  A published event: the envelope fields that patterns of this stack can name, and the
  detail payload, a JSON object.
\<close>

record event =
  ev_source :: string
  ev_detail_type :: "string option"
  ev_detail :: "(string \<times> json) list"

text \<open>
  The leaf values found at a field: a scalar is one, an array has those of its elements,
  an object has none (its members are fields of their own, one level down).
\<close>

fun leaf_values :: "json \<Rightarrow> json list" where
  "leaf_values (JObj kvs) = []"
| "leaf_values (JArr vs) = concat (map leaf_values vs)"
| "leaf_values v = [v]"

text \<open>
  The filter \<open>{ exists: true }\<close> looks for leaf values: a field is present when the object
  has the key and a leaf value is found there.
\<close>

definition field_present :: "(string \<times> json) list \<Rightarrow> string \<Rightarrow> bool" where
  "field_present obj k =
     (case map_of obj k of None \<Rightarrow> False | Some v \<Rightarrow> leaf_values v \<noteq> [])"

fun matcher_ok :: "(string \<times> json) list \<Rightarrow> string \<Rightarrow> matcher \<Rightarrow> bool" where
  "matcher_ok obj k (Exists b) = (field_present obj k = b)"
| "matcher_ok obj k (Equals j) =
     (case map_of obj k of None \<Rightarrow> False | Some v \<Rightarrow> j \<in> set (leaf_values v))"

fun field_matches :: "(string \<times> json) list \<Rightarrow> string \<times> matcher list \<Rightarrow> bool" where
  "field_matches obj (k, ms) = list_ex (matcher_ok obj k) ms"

text \<open>Every field named by the pattern must match; a field matches one of its values.\<close>

definition matches :: "EventPattern \<Rightarrow> event \<Rightarrow> bool" where
  "matches p e =
     ((case source p of None \<Rightarrow> True | Some vs \<Rightarrow> ev_source e \<in> set vs)
      \<and> (case detailType p of
           None \<Rightarrow> True
         | Some vs \<Rightarrow> (case ev_detail_type e of None \<Rightarrow> False | Some d \<Rightarrow> d \<in> set vs))
      \<and> (case detail p of None \<Rightarrow> True | Some fs \<Rightarrow> list_all (field_matches (ev_detail e)) fs))"

fun archives :: "(string \<times> construct) list \<Rightarrow> ArchiveProps list" where
  "archives [] = []"
| "archives ((i, Archive a) # cs) = a # archives cs"
| "archives (_ # cs) = archives cs"

definition archived :: "stack \<Rightarrow> event \<Rightarrow> bool" where
  "archived s e = list_ex (\<lambda>a. matches (eventPattern a) e) (archives (constructs s))"

section \<open>Published parameters\<close>

fun string_parameters :: "(string \<times> construct) list \<Rightarrow> StringParameterProps list" where
  "string_parameters [] = []"
| "string_parameters ((i, StringParameter p) # cs) = p # string_parameters cs"
| "string_parameters (_ # cs) = string_parameters cs"

definition glue_database_name :: "EventHubProps \<Rightarrow> string option" where
  "glue_database_name props =
     map_option db_name (database_of (construct_of (EventHub props) ''EventLakeDatabase''))"

section \<open>Provisioning order\<close>

text \<open>The constructs that the configuration of a construct refers to.\<close>

fun construct_refs :: "construct \<Rightarrow> string list" where
  "construct_refs EventBus = []"
| "construct_refs (StringParameter p) = refs (stringValue p)"
| "construct_refs (Archive a) = [sourceEventBus a]"
| "construct_refs (Bucket b) = []"
| "construct_refs (DeliveryStream d) =
     destination_bucket d
       # (case dataOutputPrefix d of None \<Rightarrow> [] | Some x \<Rightarrow> refs x)
       @ (case errorOutputPrefix d of None \<Rightarrow> [] | Some x \<Rightarrow> refs x)"
| "construct_refs (CfnDatabase d) = refs [db_catalogId d]"
| "construct_refs (Role r) = []"
| "construct_refs (CfnCrawler c) =
     refs (role c) @ refs (crawler_databaseName c) @ concat (map refs (s3Targets c))"
| "construct_refs (CfnTable t) =
     refs [catalogId t] @ refs (databaseName t)
       @ concat (map (\<lambda>(k, v). refs v) (parameters t))
       @ refs (location (storageDescriptor t))"

text \<open>
  The declared topology: a construct comes after every construct it refers to and after
  every target of an explicit dependency (pairs are dependent, target).
\<close>

definition edges :: "stack \<Rightarrow> (string \<times> string) list" where
  "edges s =
     concat (map (\<lambda>(i, c). map (Pair i) (construct_refs c)) (constructs s))
       @ dependencies s"

definition before :: "string \<Rightarrow> string \<Rightarrow> string list \<Rightarrow> bool" where
  "before a b xs = (a \<in> set (takeWhile (\<lambda>x. x \<noteq> b) xs) \<and> b \<in> set xs)"

definition admitted :: "stack \<Rightarrow> string list \<Rightarrow> bool" where
  "admitted s order =
     (distinct order
      \<and> set order = set (map fst (constructs s))
      \<and> list_all (\<lambda>(a, b). before b a order) (edges s))"

section \<open>Checks of the library constructs\<close>

text \<open>
  A library construct validates its props when it is created, and throws. A string is
  unresolved when it carries the marker of a token, \<open>${Token[key]}\<close>.
\<close>

datatype error =
    ParameterNameTooLong string
  | ParameterNameInvalid string
  | ParameterNameUnresolved string
  | RegionNotInMapping string

definition key_char :: "char \<Rightarrow> bool" where
  "key_char c =
     (c \<in> set ''abcdefghijklmnopqrstuvwxyzABCDEFGHIJKLMNOPQRSTUVWXYZ0123456789:._-'')"

fun token_key_end :: "bool \<Rightarrow> string \<Rightarrow> bool" where
  "token_key_end seen [] = False"
| "token_key_end seen (c # cs) =
     (if key_char c then token_key_end True cs else seen \<and> prefix '']}'' (c # cs))"

fun is_unresolved :: "string \<Rightarrow> bool" where
  "is_unresolved [] = False"
| "is_unresolved (c # cs) =
     ((prefix ''${Token['' (c # cs) \<and> token_key_end False (drop 8 (c # cs)))
      \<or> is_unresolved cs)"

text \<open>
  The parameter construct: a resolved name is at most 2048 characters long and made of
  letters, digits and the four symbols \<open>. - _ /\<close>; for an unresolved name the separator
  of the parameter's ARN cannot be determined.
\<close>

definition name_char :: "char \<Rightarrow> bool" where
  "name_char c =
     (c \<in> set ''abcdefghijklmnopqrstuvwxyzABCDEFGHIJKLMNOPQRSTUVWXYZ0123456789_.-/'')"

definition validate_parameter_name :: "string \<Rightarrow> error option" where
  "validate_parameter_name n =
     (if is_unresolved n then Some (ParameterNameUnresolved n)
      else if length n > 2048 then Some (ParameterNameTooLong n)
      else if \<not> list_all name_char n then Some (ParameterNameInvalid n)
      else None)"

text \<open>
  The delivery stream construct looks the region of the stack up in its table of the
  regions of the service, unless the region is a token. The table belongs to the
  library: \<open>known\<close> says which regions it has.
\<close>

fun check_construct :: "(string \<Rightarrow> bool) \<Rightarrow> frag \<Rightarrow> construct \<Rightarrow> error option" where
  "check_construct known reg (StringParameter p) = validate_parameter_name (parameterName p)"
| "check_construct known (Lit r) (DeliveryStream d) =
     (if is_unresolved r \<or> known r then None else Some (RegionNotInMapping r))"
| "check_construct known reg c = None"

text \<open>The first construct, in the order of creation, that throws.\<close>

fun first_error :: "(string \<Rightarrow> bool) \<Rightarrow> frag \<Rightarrow> construct list \<Rightarrow> error option" where
  "first_error known reg [] = None"
| "first_error known reg (c # cs) =
     (case check_construct known reg c of
        Some e \<Rightarrow> Some e
      | None \<Rightarrow> first_error known reg cs)"

text \<open>
  \<open>new EventHub(scope, id, props)\<close>: the error of the first construct that throws, or
  the stack that the constructor declares.
\<close>

definition new_EventHub :: "(string \<Rightarrow> bool) \<Rightarrow> EventHubProps \<Rightarrow> error + stack" where
  "new_EventHub known props =
     (case first_error known (stack_region props) (map snd (constructs (EventHub props))) of
        Some e \<Rightarrow> Inl e
      | None \<Rightarrow> Inr (EventHub props))"

text \<open>
  The stages with which every parameter name of the stack passes the check (the longest
  name adds 25 characters to the stage), and the props whose region passes the check of
  the delivery stream.
\<close>

definition stage_ok :: "string \<Rightarrow> bool" where
  "stage_ok st = (list_all name_char st \<and> length st \<le> 2023)"

definition region_known :: "(string \<Rightarrow> bool) \<Rightarrow> EventHubProps \<Rightarrow> bool" where
  "region_known known props =
     (case stack_region props of Lit r \<Rightarrow> is_unresolved r \<or> known r | Tok t \<Rightarrow> True)"

section \<open>Example inputs\<close>

definition example_props :: EventHubProps where
  "example_props =
     \<lparr>env = Some \<lparr>account = Some ''123456789012'', region = Some ''eu-west-1''\<rparr>,
      serviceName = ''event-hub'',
      stage = ''dev''\<rparr>"

text \<open>A deployment: what each token stands for once the resources exist.\<close>

fun example_deployment :: "token \<Rightarrow> string" where
  "example_deployment (Ref i) =
     (if i = ''EventLake'' then ''lake''
      else if i = ''EventLakeDatabase'' then ''event_lake_dev''
      else if i = ''EventsTable'' then ''events''
      else i)"
| "example_deployment (GetAtt i a) = i @ ''.'' @ a"
| "example_deployment AwsRegion = ''us-east-1''"
| "example_deployment AwsAccountId = ''000000000000''"

definition example_regions :: "string \<Rightarrow> bool" where
  "example_regions r = (r \<in> set [''us-east-1'', ''eu-west-1'', ''ap-southeast-2''])"

definition example_hour :: datehour where
  "example_hour = \<lparr>year = 2024, month = 1, day = 1, hour = 0\<rparr>"

text \<open>
  An event published with source \<open>custom\<close> and detail type \<open>OrderPlaced\<close>, whose detail
  payload has the four fields of the events table.
\<close>

definition example_event :: event where
  "example_event =
     \<lparr>ev_source = ''custom'',
      ev_detail_type = Some ''OrderPlaced'',
      ev_detail =
        [(''timestamp'', JNum 1704067200),
         (''type'', JStr ''order''),
         (''data'', JStr ''{}''),
         (''from'', JStr ''shop'')]\<rparr>"

text \<open>The constructs in the order of their creation.\<close>

definition creation_order :: "string list" where
  "creation_order =
     [''Bus'', ''BusArn'', ''ArchiveEventLake'', ''EventLake'', ''EventLakeName'',
      ''DeliveryStream'', ''EventLakeDatabase'', ''GlueCrawlerRole'', ''EventLakeCrawler'',
      ''GlueDatabaseName'', ''GlueCrawlerName'', ''EventsTable'', ''GlueTableName'']"

section \<open>The constructed stack, evaluated\<close>

lemma EventHub_constructs:
  "constructs (EventHub props) =
    [(''Bus'', EventBus),
     (''BusArn'', StringParameter
        \<lparr>parameterName = ''/vimo/'' @ stage props @ ''/event-bus-arn'',
         stringValue = [Tok (GetAtt ''Bus'' ''Arn'')],
         tier = Some ADVANCED\<rparr>),
     (''ArchiveEventLake'', Archive
        \<lparr>sourceEventBus = ''Bus'', eventPattern = archive_pattern\<rparr>),
     (''EventLake'', Bucket \<lparr>removalPolicy = Some RETAIN, versioned = None\<rparr>),
     (''EventLakeName'', StringParameter
        \<lparr>parameterName = ''/vimo/'' @ stage props @ ''/event-lake-name'',
         stringValue = [Tok (Ref ''EventLake'')],
         tier = None\<rparr>),
     (''DeliveryStream'', DeliveryStream
        \<lparr>destination_bucket = ''EventLake'',
         dataOutputPrefix = Some [stack_region props, Lit ''/''],
         errorOutputPrefix = None\<rparr>),
     (''EventLakeDatabase'', CfnDatabase
        \<lparr>db_catalogId = stack_account props,
         db_name = ''event_lake_'' @ stage props\<rparr>),
     (''GlueCrawlerRole'', Role
        \<lparr>assumedBy = ''glue.amazonaws.com'',
         managedPolicies = [''service-role/AWSGlueServiceRole'']\<rparr>),
     (''EventLakeCrawler'', CfnCrawler
        \<lparr>role = [Tok (GetAtt ''GlueCrawlerRole'' ''Arn'')],
         crawler_databaseName = [Tok (Ref ''EventLakeDatabase'')],
         s3Targets = [[Lit ''s3://'', Tok (Ref ''EventLake''), Lit ''/'']],
         updateBehavior = ''UPDATE_IN_DATABASE'',
         deleteBehavior = ''DEPRECATE_IN_DATABASE''\<rparr>),
     (''GlueDatabaseName'', StringParameter
        \<lparr>parameterName = ''/vimo/'' @ stage props @ ''/glue-database-name'',
         stringValue = [Tok (Ref ''EventLakeDatabase'')],
         tier = None\<rparr>),
     (''GlueCrawlerName'', StringParameter
        \<lparr>parameterName = ''/vimo/'' @ stage props @ ''/glue-crawler-name'',
         stringValue = [Tok (Ref ''EventLakeCrawler'')],
         tier = None\<rparr>),
     (''EventsTable'', CfnTable
        (events_table props (Tok (Ref ''EventLake'')) (Tok (Ref ''EventLakeDatabase'')))),
     (''GlueTableName'', StringParameter
        \<lparr>parameterName = ''/vimo/'' @ stage props @ ''/glue-table-name'',
         stringValue = [Tok (Ref ''EventsTable'')],
         tier = None\<rparr>)]"
  by (simp add: EventHub_def Let_def add_def grantRead_def addDependency_def empty_stack_def)

lemma EventHub_dependencies:
  "dependencies (EventHub props) = [(''EventsTable'', ''EventLakeDatabase'')]"
  by (simp add: EventHub_def Let_def add_def grantRead_def addDependency_def empty_stack_def)

lemma EventHub_grants:
  "grants (EventHub props) = [(''EventLake'', ''GlueCrawlerRole'')]"
  by (simp add: EventHub_def Let_def add_def grantRead_def addDependency_def empty_stack_def)

section \<open>Formatting and substitution\<close>

lemma format_datehour:
  "format_date ''yyyy/MM/dd/HH'' t =
     pad 4 (year t) @ ''/'' @ pad 2 (month t) @ ''/'' @ pad 2 (day t) @ ''/'' @ pad 2 (hour t)"
  by (simp add: render_field_def numeral_eq_Suc)

lemma substitute_skip:
  "CHR ''$'' \<notin> set xs \<Longrightarrow>
   substitute (CHR ''$'' # ph) v (xs @ ys) = xs @ substitute (CHR ''$'' # ph) v ys"
  by (induction xs) auto

lemma substitute_hit:
  "ph \<noteq> [] \<Longrightarrow> substitute ph v (ph @ ys) = v @ substitute ph v ys"
  by (cases ph) auto

lemma substitute_slash: "substitute (placeholder k) v ''/'' = ''/''"
  by (simp add: placeholder_def)

lemma EventHub_table:
  "table_of (construct_of (EventHub props) ''EventsTable'') =
     Some (events_table props (Tok (Ref ''EventLake'')) (Tok (Ref ''EventLakeDatabase'')))"
  by (simp add: EventHub_constructs construct_of_def)

lemma EventHub_stream:
  "stream_of (construct_of (EventHub props) ''DeliveryStream'') =
     Some \<lparr>destination_bucket = ''EventLake'',
           dataOutputPrefix = Some [stack_region props, Lit ''/''],
           errorOutputPrefix = None\<rparr>"
  by (simp add: EventHub_constructs construct_of_def)

lemma resolved_template:
  "map_of (resolved_parameters \<rho> (events_table props b d)) ''storage.location.template'' =
     Some (resolve_frag \<rho> (Lit ''s3://'') @ resolve_frag \<rho> b @ ''/'' @ resolve_frag \<rho> (stack_region props)
            @ ''/'' @ placeholder ''datehour'' @ ''/'')"
  by (simp add: resolved_parameters_def events_table_def events_parameters_def resolve_def
      placeholder_def)

lemma projected_datehour:
  "projected_value (resolved_parameters \<rho> (events_table props b d)) ''datehour'' t =
     Some (format_date ''yyyy/MM/dd/HH'' t)"
  by (simp add: projected_value_def resolved_parameters_def events_table_def
      events_parameters_def resolve_def)

lemma partition_keys: "map col_name (partitionKeys (events_table props b d)) = [''datehour'']"
  by (simp add: events_table_def)

lemma resolved_location:
  "resolve \<rho> (location (storageDescriptor (events_table props b d))) =
     ''s3://'' @ resolve_frag \<rho> b @ ''/'' @ resolve_frag \<rho> (stack_region props) @ ''/''"
  by (simp add: events_table_def resolve_def)

lemma substitute_template:
  assumes "CHR ''$'' \<notin> set bkt" and "CHR ''$'' \<notin> set reg"
  shows "substitute (placeholder ''datehour'') v
           (''s3://'' @ bkt @ ''/'' @ reg @ ''/'' @ placeholder ''datehour'' @ ''/'')
         = ''s3://'' @ bkt @ ''/'' @ reg @ ''/'' @ v @ ''/''"
proof -
  let ?ph = "placeholder ''datehour''"
  let ?pre = "''s3://'' @ bkt @ ''/'' @ reg @ ''/''"
  have ph: "?ph = CHR ''$'' # ''{datehour}''"
    by (simp add: placeholder_def)
  have clean: "CHR ''$'' \<notin> set ?pre"
    using assms by simp
  have "substitute ?ph v (?pre @ (?ph @ ''/'')) = ?pre @ substitute ?ph v (?ph @ ''/'')"
    unfolding ph using clean by (rule substitute_skip)
  also have "substitute ?ph v (?ph @ ''/'') = v @ substitute ?ph v ''/''"
    by (rule substitute_hit) (simp add: placeholder_def)
  also have "substitute ?ph v ''/'' = ''/''"
    by (rule substitute_slash)
  finally show ?thesis by simp
qed

lemma partition_location_events:
  assumes "CHR ''$'' \<notin> set (resolve_frag \<rho> b)"
    and "CHR ''$'' \<notin> set (resolve_frag \<rho> (stack_region props))"
  shows "partition_location \<rho> (events_table props b d) t =
     Some (resolve \<rho> (location (storageDescriptor (events_table props b d)))
            @ format_date ''yyyy/MM/dd/HH'' t @ ''/'')"
proof -
  have "partition_location \<rho> (events_table props b d) t =
     Some (substitute (placeholder ''datehour'') (format_date ''yyyy/MM/dd/HH'' t)
       (''s3://'' @ resolve_frag \<rho> b @ ''/'' @ resolve_frag \<rho> (stack_region props)
            @ ''/'' @ placeholder ''datehour'' @ ''/''))"
    unfolding partition_location_def Let_def
    by (simp only: resolved_template partition_keys option.case substitute_keys.simps
        projected_datehour resolve_frag.simps)
  then show ?thesis
    using substitute_template [OF assms] by (simp add: resolved_location)
qed

section \<open>Object storage layout\<close>

lemma has_expression_slash: "has_expression (r @ ''/'') = has_expression r"
proof (induction r)
  case Nil
  show ?case by simp
next
  case (Cons c cs)
  have "prefix ''{'' (cs @ ''/'') = prefix ''{'' cs"
    by (cases cs) simp_all
  with Cons show ?case by simp
qed

lemma delivery_location_stream:
  assumes "\<not> has_expression (resolve_frag \<rho> (stack_region props))"
  shows "delivery_location \<rho>
           \<lparr>destination_bucket = ''EventLake'',
            dataOutputPrefix = Some [stack_region props, Lit ''/''],
            errorOutputPrefix = None\<rparr> t =
         Some (''s3://'' @ \<rho> (Ref ''EventLake'') @ ''/''
                @ resolve_frag \<rho> (stack_region props) @ ''/'' @ default_time_prefix t)"
proof -
  have "resolve \<rho> [stack_region props, Lit ''/'']
          = resolve_frag \<rho> (stack_region props) @ ''/''"
    by (simp add: resolve_def)
  moreover have "\<not> has_expression (resolve_frag \<rho> (stack_region props) @ ''/'')"
    using assms by (simp add: has_expression_slash)
  ultimately show ?thesis
    by (simp add: delivery_location_def)
qed

text \<open>
  C1. The delivery stream is declared with the output prefix \<open><region>/\<close>, after which
  the delivery service puts \<open><yyyy>/<MM>/<dd>/<HH>/\<close>. For every hour, the location under
  which the stream writes the records of the hour and the location to which the storage
  location template of the events table resolves the partition of that hour are the
  same: the event lake bucket, then \<open><region>/<yyyy>/<MM>/<dd>/<HH>/\<close>. The bucket name
  and the region are those of real resources (no \<open>$\<close>, no expression).
\<close>

theorem delivery_layout_matches_table:
  assumes "placeholder_free \<rho> props"
    and "\<not> has_expression (resolve_frag \<rho> (stack_region props))"
  shows "\<exists>d tbl path.
     stream_of (construct_of (EventHub props) ''DeliveryStream'') = Some d \<and>
     table_of (construct_of (EventHub props) ''EventsTable'') = Some tbl \<and>
     dataOutputPrefix d = Some [stack_region props, Lit ''/''] \<and>
     delivery_location \<rho> d t = Some path \<and>
     partition_location \<rho> tbl t = Some path \<and>
     path = ''s3://'' @ \<rho> (Ref ''EventLake'') @ ''/''
              @ resolve_frag \<rho> (stack_region props) @ ''/''
              @ pad 4 (year t) @ ''/'' @ pad 2 (month t) @ ''/''
              @ pad 2 (day t) @ ''/'' @ pad 2 (hour t) @ ''/''"
proof -
  let ?d = "\<lparr>destination_bucket = ''EventLake'',
             dataOutputPrefix = Some [stack_region props, Lit ''/''],
             errorOutputPrefix = None\<rparr>"
  let ?tbl = "events_table props (Tok (Ref ''EventLake'')) (Tok (Ref ''EventLakeDatabase''))"
  let ?path = "''s3://'' @ \<rho> (Ref ''EventLake'') @ ''/''
              @ resolve_frag \<rho> (stack_region props) @ ''/''
              @ pad 4 (year t) @ ''/'' @ pad 2 (month t) @ ''/''
              @ pad 2 (day t) @ ''/'' @ pad 2 (hour t) @ ''/''"
  have free: "CHR ''$'' \<notin> set (resolve_frag \<rho> (Tok (Ref ''EventLake'')))"
    "CHR ''$'' \<notin> set (resolve_frag \<rho> (stack_region props))"
    using assms(1) by (simp_all add: placeholder_free_def)
  have deliv: "delivery_location \<rho> ?d t = Some ?path"
    unfolding delivery_location_stream [OF assms(2)]
    by (simp add: default_time_prefix_def)
  have part: "partition_location \<rho> ?tbl t = Some ?path"
    unfolding partition_location_events [OF free] resolved_location format_datehour
    by simp
  from deliv part show ?thesis
    by (intro exI [of _ ?d] exI [of _ ?tbl] exI [of _ ?path])
       (simp add: EventHub_stream EventHub_table)
qed

theorem delivery_layout_matches_table_witness:
  "placeholder_free example_deployment example_props \<and>
   \<not> has_expression (resolve_frag example_deployment (stack_region example_props)) \<and>
   (\<exists>d tbl path.
     stream_of (construct_of (EventHub example_props) ''DeliveryStream'') = Some d \<and>
     table_of (construct_of (EventHub example_props) ''EventsTable'') = Some tbl \<and>
     dataOutputPrefix d = Some [stack_region example_props, Lit ''/''] \<and>
     delivery_location example_deployment d example_hour = Some path \<and>
     partition_location example_deployment tbl example_hour = Some path \<and>
     path = ''s3://'' @ example_deployment (Ref ''EventLake'') @ ''/''
              @ resolve_frag example_deployment (stack_region example_props) @ ''/''
              @ pad 4 (year example_hour) @ ''/'' @ pad 2 (month example_hour) @ ''/''
              @ pad 2 (day example_hour) @ ''/'' @ pad 2 (hour example_hour) @ ''/'')"
proof -
  have h1: "placeholder_free example_deployment example_props"
    by (simp add: placeholder_free_def stack_region_def example_props_def)
  have h2: "\<not> has_expression (resolve_frag example_deployment (stack_region example_props))"
    by (simp add: stack_region_def example_props_def)
  from h1 h2 delivery_layout_matches_table [OF h1 h2, of example_hour] show ?thesis
    by (intro conjI)
qed

section \<open>Storage location template and projection format\<close>

text \<open>
  C2. The table projects its partition key \<open>datehour\<close> with the format
  \<open>yyyy/MM/dd/HH\<close>. For every hour, the value that the format generates, put in the
  place of \<open>${datehour}\<close> in the storage location template, gives the declared storage
  location of the table followed by that value and a slash: a path under the location.
  The bucket name and the region are those of real resources (no \<open>$\<close>).
\<close>

theorem template_consistent_with_format:
  assumes "placeholder_free \<rho> props"
  shows "\<exists>tbl v.
     table_of (construct_of (EventHub props) ''EventsTable'') = Some tbl \<and>
     map_of (parameters tbl) ''projection.datehour.format'' = Some [Lit ''yyyy/MM/dd/HH''] \<and>
     projected_value (resolved_parameters \<rho> tbl) ''datehour'' t = Some v \<and>
     v = format_date ''yyyy/MM/dd/HH'' t \<and>
     partition_location \<rho> tbl t
       = Some (resolve \<rho> (location (storageDescriptor tbl)) @ v @ ''/'') \<and>
     strict_prefix (resolve \<rho> (location (storageDescriptor tbl)))
       (resolve \<rho> (location (storageDescriptor tbl)) @ v @ ''/'')"
proof -
  let ?tbl = "events_table props (Tok (Ref ''EventLake'')) (Tok (Ref ''EventLakeDatabase''))"
  let ?v = "format_date ''yyyy/MM/dd/HH'' t"
  have free: "CHR ''$'' \<notin> set (resolve_frag \<rho> (Tok (Ref ''EventLake'')))"
    "CHR ''$'' \<notin> set (resolve_frag \<rho> (stack_region props))"
    using assms by (simp_all add: placeholder_free_def)
  have fmt: "map_of (parameters ?tbl) ''projection.datehour.format''
       = Some [Lit ''yyyy/MM/dd/HH'']"
    by (simp add: events_table_def events_parameters_def)
  have under: "strict_prefix (resolve \<rho> (location (storageDescriptor ?tbl)))
       (resolve \<rho> (location (storageDescriptor ?tbl)) @ ?v @ ''/'')"
    by (simp add: strict_prefix_def)
  from fmt under show ?thesis
    by (intro exI [of _ ?tbl] exI [of _ ?v])
       (simp only: EventHub_table projected_datehour partition_location_events [OF free]
          simp_thms)
qed

theorem template_consistent_with_format_witness:
  "placeholder_free example_deployment example_props \<and>
   (\<exists>tbl v.
     table_of (construct_of (EventHub example_props) ''EventsTable'') = Some tbl \<and>
     map_of (parameters tbl) ''projection.datehour.format'' = Some [Lit ''yyyy/MM/dd/HH''] \<and>
     projected_value (resolved_parameters example_deployment tbl) ''datehour'' example_hour
       = Some v \<and>
     v = format_date ''yyyy/MM/dd/HH'' example_hour \<and>
     partition_location example_deployment tbl example_hour
       = Some (resolve example_deployment (location (storageDescriptor tbl)) @ v @ ''/'') \<and>
     strict_prefix (resolve example_deployment (location (storageDescriptor tbl)))
       (resolve example_deployment (location (storageDescriptor tbl)) @ v @ ''/''))"
proof -
  have h: "placeholder_free example_deployment example_props"
    by (simp add: placeholder_free_def stack_region_def example_props_def)
  from h template_consistent_with_format [OF h, of example_hour] show ?thesis
    by (rule conjI)
qed

section \<open>The archive rule\<close>

lemma EventHub_archives:
  "archives (constructs (EventHub props)) =
     [\<lparr>sourceEventBus = ''Bus'', eventPattern = archive_pattern\<rparr>]"
  by (simp add: EventHub_constructs)

lemma archived_iff_matches: "archived (EventHub props) e = matches archive_pattern e"
  by (simp add: archived_def EventHub_archives)

text \<open>
  C3, as stated, at the example: the event has source \<open>custom\<close> and a detail type, and
  the archive rule does not match it, because the pattern asks for a field
  \<open>detail-type\<close> inside the detail payload, which the event does not have.
\<close>

theorem event_with_detail_type_not_archived:
  "ev_source example_event = ''custom'' \<and>
   ev_detail_type example_event = Some ''OrderPlaced'' \<and>
   \<not> archived (EventHub example_props) example_event"
  by (simp add: archived_iff_matches matches_def archive_pattern_def example_event_def
      field_present_def)

text \<open>
  C3, amended. The archive rule matches exactly the events whose source is \<open>custom\<close> and
  whose detail payload has the key \<open>detail-type\<close> with a leaf value under it: a scalar,
  or an array that holds one. An object or an empty array under the key does not count.
  The detail type of the event itself plays no part.
\<close>

theorem archive_rule_matches_exactly:
  "archived (EventHub props) e
     = (ev_source e = ''custom'' \<and>
        (\<exists>v. map_of (ev_detail e) ''detail-type'' = Some v \<and> leaf_values v \<noteq> [])) \<and>
   archived (EventHub props) (e\<lparr>ev_detail_type := dt\<rparr>) = archived (EventHub props) e"
  by (auto simp: archived_iff_matches matches_def archive_pattern_def field_present_def
      split: option.splits)

text \<open>
  Three events with source \<open>custom\<close>: a string under \<open>detail-type\<close> in the payload is
  matched, an object or an empty array under it is not.
\<close>

lemma archive_rule_needs_leaf_value:
  "archived (EventHub props)
     \<lparr>ev_source = ''custom'', ev_detail_type = None,
      ev_detail = [(''detail-type'', JStr ''OrderPlaced'')]\<rparr> \<and>
   \<not> archived (EventHub props)
     \<lparr>ev_source = ''custom'', ev_detail_type = None,
      ev_detail = [(''detail-type'', JObj [(''x'', JNum 1)])]\<rparr> \<and>
   \<not> archived (EventHub props)
     \<lparr>ev_source = ''custom'', ev_detail_type = None,
      ev_detail = [(''detail-type'', JArr [])]\<rparr>"
  by (simp add: archived_iff_matches matches_def archive_pattern_def field_present_def)

section \<open>The parameters of a stage\<close>

lemma EventHub_string_parameters:
  "string_parameters (constructs (EventHub props)) =
     [\<lparr>parameterName = ''/vimo/'' @ stage props @ ''/event-bus-arn'',
       stringValue = [Tok (GetAtt ''Bus'' ''Arn'')],
       tier = Some ADVANCED\<rparr>,
      \<lparr>parameterName = ''/vimo/'' @ stage props @ ''/event-lake-name'',
       stringValue = [Tok (Ref ''EventLake'')],
       tier = None\<rparr>,
      \<lparr>parameterName = ''/vimo/'' @ stage props @ ''/glue-database-name'',
       stringValue = [Tok (Ref ''EventLakeDatabase'')],
       tier = None\<rparr>,
      \<lparr>parameterName = ''/vimo/'' @ stage props @ ''/glue-crawler-name'',
       stringValue = [Tok (Ref ''EventLakeCrawler'')],
       tier = None\<rparr>,
      \<lparr>parameterName = ''/vimo/'' @ stage props @ ''/glue-table-name'',
       stringValue = [Tok (Ref ''EventsTable'')],
       tier = None\<rparr>]"
  by (simp add: EventHub_constructs)

lemma unresolved_has_dollar: "is_unresolved s \<Longrightarrow> CHR ''$'' \<in> set s"
  by (induction s) auto

lemma name_chars_resolved: "list_all name_char s \<Longrightarrow> \<not> is_unresolved s"
proof
  assume "list_all name_char s" and "is_unresolved s"
  then have "name_char CHR ''$''"
    using unresolved_has_dollar by (auto simp: list_all_iff)
  then show False
    by (simp add: name_char_def)
qed

lemma parameter_name_valid:
  assumes "stage_ok st" and "list_all name_char sfx" and "length sfx \<le> 19"
  shows "validate_parameter_name (''/vimo/'' @ st @ sfx) = None"
proof -
  have chars: "list_all name_char (''/vimo/'' @ st @ sfx)"
    using assms(1,2) by (simp add: stage_ok_def name_char_def)
  have len: "length (''/vimo/'' @ st @ sfx) \<le> 2048"
    using assms(1,3) by (simp add: stage_ok_def)
  from chars len name_chars_resolved [OF chars] show ?thesis
    by (simp add: validate_parameter_name_def)
qed

lemma constructor_succeeds:
  assumes "stage_ok (stage props)" and "region_known known props"
  shows "new_EventHub known props = Inr (EventHub props)"
proof -
  have names:
    "validate_parameter_name (''/vimo/'' @ stage props @ ''/event-bus-arn'') = None"
    "validate_parameter_name (''/vimo/'' @ stage props @ ''/event-lake-name'') = None"
    "validate_parameter_name (''/vimo/'' @ stage props @ ''/glue-database-name'') = None"
    "validate_parameter_name (''/vimo/'' @ stage props @ ''/glue-crawler-name'') = None"
    "validate_parameter_name (''/vimo/'' @ stage props @ ''/glue-table-name'') = None"
    by (rule parameter_name_valid [OF assms(1)]; simp add: name_char_def)+
  have reg: "check_construct known (stack_region props) (DeliveryStream d) = None" for d
    using assms(2) by (cases "stack_region props") (auto simp: region_known_def)
  show ?thesis
    unfolding new_EventHub_def EventHub_constructs
    by (simp add: names [simplified] reg)
qed

text \<open>
  C4, as stated, at a stage with a space in it: the parameter construct refuses the
  first parameter name, the constructor throws and nothing is published.
\<close>

theorem stage_with_space_publishes_nothing:
  "new_EventHub example_regions (example_props\<lparr>stage := ''a b''\<rparr>)
     = Inl (ParameterNameInvalid ''/vimo/a b/event-bus-arn'')"
  unfolding new_EventHub_def EventHub_constructs
  by (simp add: validate_parameter_name_def name_char_def key_char_def)

text \<open>
  C4, amended. For every stage made of letters, digits and the symbols \<open>. - _ /\<close>, of at
  most 2023 characters, and a region that the delivery stream construct knows, the
  constructor returns the stack, and the stack publishes five parameters: the ARN of the
  bus, the name of the event lake bucket, and the references (names) of the catalog
  database, the crawler and the table, one parameter for each; their names are
  \<open>/vimo/<stage>/<resource-key>\<close>, and no two names are equal.
\<close>

theorem published_parameters:
  assumes "stage_ok (stage props)" and "region_known known props"
  shows "\<exists>s.
     new_EventHub known props = Inr s \<and>
     map (\<lambda>p. (parameterName p, stringValue p)) (string_parameters (constructs s)) =
       [(''/vimo/'' @ stage props @ ''/event-bus-arn'', [Tok (GetAtt ''Bus'' ''Arn'')]),
        (''/vimo/'' @ stage props @ ''/event-lake-name'', [Tok (Ref ''EventLake'')]),
        (''/vimo/'' @ stage props @ ''/glue-database-name'', [Tok (Ref ''EventLakeDatabase'')]),
        (''/vimo/'' @ stage props @ ''/glue-crawler-name'', [Tok (Ref ''EventLakeCrawler'')]),
        (''/vimo/'' @ stage props @ ''/glue-table-name'', [Tok (Ref ''EventsTable'')])] \<and>
     distinct (map parameterName (string_parameters (constructs s))) \<and>
     distinct (map stringValue (string_parameters (constructs s)))"
proof -
  have "new_EventHub known props = Inr (EventHub props)"
    using assms by (rule constructor_succeeds)
  then show ?thesis
    by (intro exI [of _ "EventHub props"]) (simp add: EventHub_string_parameters)
qed

theorem published_parameters_witness:
  "stage_ok (stage example_props) \<and> region_known example_regions example_props \<and>
   (\<exists>s.
     new_EventHub example_regions example_props = Inr s \<and>
     map (\<lambda>p. (parameterName p, stringValue p)) (string_parameters (constructs s)) =
       [(''/vimo/'' @ stage example_props @ ''/event-bus-arn'', [Tok (GetAtt ''Bus'' ''Arn'')]),
        (''/vimo/'' @ stage example_props @ ''/event-lake-name'', [Tok (Ref ''EventLake'')]),
        (''/vimo/'' @ stage example_props @ ''/glue-database-name'',
           [Tok (Ref ''EventLakeDatabase'')]),
        (''/vimo/'' @ stage example_props @ ''/glue-crawler-name'',
           [Tok (Ref ''EventLakeCrawler'')]),
        (''/vimo/'' @ stage example_props @ ''/glue-table-name'', [Tok (Ref ''EventsTable'')])] \<and>
     distinct (map parameterName (string_parameters (constructs s))) \<and>
     distinct (map stringValue (string_parameters (constructs s))))"
proof -
  have h1: "stage_ok (stage example_props)"
    by (simp add: stage_ok_def example_props_def name_char_def)
  have h2: "region_known example_regions example_props"
    by (simp add: region_known_def stack_region_def example_props_def example_regions_def)
  from h1 h2 published_parameters [OF h1 h2] show ?thesis
    by (intro conjI)
qed

section \<open>The events table\<close>

text \<open>
  C5. The events table has the columns \<open>timestamp:bigint\<close>, \<open>type:string\<close>,
  \<open>data:string\<close> and \<open>from:string\<close>, in this order, and the one partition key
  \<open>datehour:string\<close>. The projection of \<open>datehour\<close> is enabled, of type date, in steps of
  1 \<open>HOURS\<close>, over the range from \<open>2024/01/01/00\<close>, whatever the props, to \<open>NOW\<close>.
\<close>

theorem events_table_schema:
  "\<exists>tbl.
     table_of (construct_of (EventHub props) ''EventsTable'') = Some tbl \<and>
     map (\<lambda>c. (col_name c, col_type c)) (columns (storageDescriptor tbl)) =
       [(''timestamp'', ''bigint''), (''type'', ''string''),
        (''data'', ''string''), (''from'', ''string'')] \<and>
     map (\<lambda>c. (col_name c, col_type c)) (partitionKeys tbl) = [(''datehour'', ''string'')] \<and>
     map_of (parameters tbl) ''projection.enabled'' = Some [Lit ''true''] \<and>
     map_of (parameters tbl) ''projection.datehour.type'' = Some [Lit ''date''] \<and>
     map_of (parameters tbl) ''projection.datehour.interval'' = Some [Lit ''1''] \<and>
     map_of (parameters tbl) ''projection.datehour.interval.unit'' = Some [Lit ''HOURS''] \<and>
     map_option (split_range \<circ> resolve \<rho>) (map_of (parameters tbl) ''projection.datehour.range'')
       = Some (''2024/01/01/00'', ''NOW'')"
proof -
  let ?tbl = "events_table props (Tok (Ref ''EventLake'')) (Tok (Ref ''EventLakeDatabase''))"
  have cols: "map (\<lambda>c. (col_name c, col_type c)) (columns (storageDescriptor ?tbl)) =
       [(''timestamp'', ''bigint''), (''type'', ''string''),
        (''data'', ''string''), (''from'', ''string'')]"
    by (simp add: events_table_def)
  have keys: "map (\<lambda>c. (col_name c, col_type c)) (partitionKeys ?tbl)
       = [(''datehour'', ''string'')]"
    by (simp add: events_table_def)
  have params: "parameters ?tbl = events_parameters (Tok (Ref ''EventLake'')) (stack_region props)"
    by (simp add: events_table_def)
  have proj: "map_of (parameters ?tbl) ''projection.enabled'' = Some [Lit ''true'']"
    "map_of (parameters ?tbl) ''projection.datehour.type'' = Some [Lit ''date'']"
    "map_of (parameters ?tbl) ''projection.datehour.interval'' = Some [Lit ''1'']"
    "map_of (parameters ?tbl) ''projection.datehour.interval.unit'' = Some [Lit ''HOURS'']"
    unfolding params by (simp_all add: events_parameters_def)
  have range: "map_option (split_range \<circ> resolve \<rho>)
        (map_of (parameters ?tbl) ''projection.datehour.range'')
       = Some (''2024/01/01/00'', ''NOW'')"
    unfolding params by (simp add: events_parameters_def split_range_def resolve_def)
  from cols keys proj range show ?thesis
    by (intro exI [of _ ?tbl]) (simp only: EventHub_table simp_thms)
qed

section \<open>The table comes after the database\<close>

lemma before_if_edge:
  assumes "list_all (\<lambda>(a, b). before b a order) es" and "(x, y) \<in> set es"
  shows "before y x order"
  using assms by (auto simp: list_all_iff)

lemma explicit_dependency_is_edge: "set (dependencies s) \<subseteq> set (edges s)"
  by (simp add: edges_def)

lemma EventHub_edges:
  "edges (EventHub props) =
     [(''BusArn'', ''Bus''), (''ArchiveEventLake'', ''Bus''), (''EventLakeName'', ''EventLake''),
      (''DeliveryStream'', ''EventLake''), (''EventLakeCrawler'', ''GlueCrawlerRole''),
      (''EventLakeCrawler'', ''EventLakeDatabase''), (''EventLakeCrawler'', ''EventLake''),
      (''GlueDatabaseName'', ''EventLakeDatabase''), (''GlueCrawlerName'', ''EventLakeCrawler''),
      (''EventsTable'', ''EventLakeDatabase''), (''EventsTable'', ''EventLake''),
      (''EventsTable'', ''EventLake''), (''GlueTableName'', ''EventsTable''),
      (''EventsTable'', ''EventLakeDatabase'')]"
proof -
  have reg: "refs_frag (stack_region props) = []"
    by (simp add: stack_region_def split: option.splits)
  have acc: "refs_frag (stack_account props) = []"
    by (simp add: stack_account_def split: option.splits)
  show ?thesis
    by (simp add: edges_def EventHub_constructs EventHub_dependencies refs_def
        events_table_def events_parameters_def archive_pattern_def reg acc)
qed

text \<open>
  C6. The events table declares an explicit dependency on the catalog database, and in
  every order of provisioning that the declared topology admits, the database comes
  before the table.
\<close>

theorem table_after_database:
  assumes "admitted (EventHub props) order"
  shows "(''EventsTable'', ''EventLakeDatabase'') \<in> set (dependencies (EventHub props)) \<and>
         before ''EventLakeDatabase'' ''EventsTable'' order"
proof -
  have dep: "(''EventsTable'', ''EventLakeDatabase'') \<in> set (dependencies (EventHub props))"
    by (simp add: EventHub_dependencies)
  then have "(''EventsTable'', ''EventLakeDatabase'') \<in> set (edges (EventHub props))"
    using explicit_dependency_is_edge by blast
  moreover have "list_all (\<lambda>(a, b). before b a order) (edges (EventHub props))"
    using assms by (simp add: admitted_def)
  ultimately have "before ''EventLakeDatabase'' ''EventsTable'' order"
    by (rule before_if_edge [rotated])
  with dep show ?thesis by simp
qed

theorem table_after_database_witness:
  "admitted (EventHub example_props) creation_order \<and>
   (''EventsTable'', ''EventLakeDatabase'') \<in> set (dependencies (EventHub example_props)) \<and>
   before ''EventLakeDatabase'' ''EventsTable'' creation_order"
proof -
  have h: "admitted (EventHub example_props) creation_order"
    unfolding admitted_def EventHub_edges
    by (simp add: EventHub_constructs creation_order_def before_def)
  from h table_after_database [OF h] show ?thesis
    by (rule conjI)
qed

section \<open>The catalog database name\<close>

lemma EventHub_database:
  "database_of (construct_of (EventHub props) ''EventLakeDatabase'') =
     Some \<lparr>db_catalogId = stack_account props, db_name = ''event_lake_'' @ stage props\<rparr>"
  by (simp add: EventHub_constructs construct_of_def)

text \<open>
  C7. The name of the catalog database is \<open>event_lake_\<close> followed by the stage: a
  function of the stage alone, and two props give the same name exactly when their
  stages are equal.
\<close>

theorem database_name_injective:
  "glue_database_name p1 = Some (''event_lake_'' @ stage p1) \<and>
   (glue_database_name p1 = glue_database_name p2) = (stage p1 = stage p2)"
  by (simp add: glue_database_name_def EventHub_database)

section \<open>The event lake bucket\<close>

text \<open>
  C8. Whatever the props (service name, stage, region, account), the stack declares
  exactly one bucket, \<open>EventLake\<close>, and its declared removal policy is \<open>RETAIN\<close>.
\<close>

theorem event_lake_retained:
  "map fst (buckets (constructs (EventHub props))) = [''EventLake''] \<and>
   map (removalPolicy \<circ> snd) (buckets (constructs (EventHub props))) = [Some RETAIN] \<and>
   map_option removalPolicy (bucket_of (construct_of (EventHub props) ''EventLake''))
     = Some (Some RETAIN)"
  by (simp add: EventHub_constructs construct_of_def)

section \<open>Versioning of the event lake\<close>

lemma EventHub_bucket:
  "bucket_of (construct_of (EventHub props) ''EventLake'') =
     Some \<lparr>removalPolicy = Some RETAIN, versioned = None\<rparr>"
  by (simp add: EventHub_constructs construct_of_def)

text \<open>C9, as stated, at the example: versioning is not enabled on the event lake.\<close>

theorem event_lake_not_versioned_example:
  "map_option versioning_enabled (bucket_of (construct_of (EventHub example_props) ''EventLake''))
     = Some False"
  by (simp add: EventHub_bucket versioning_enabled_def)

text \<open>
  C9, amended. The event lake is declared with the retain policy and nothing else: the
  \<open>versioned\<close> prop is not given, so versioning is not enabled on the bucket, whatever
  the props.
\<close>

theorem event_lake_retain_only:
  "bucket_of (construct_of (EventHub props) ''EventLake'')
     = Some \<lparr>removalPolicy = Some RETAIN, versioned = None\<rparr> \<and>
   map_option versioning_enabled (bucket_of (construct_of (EventHub props) ''EventLake''))
     = Some False"
  by (simp add: EventHub_bucket versioning_enabled_def)

section \<open>Independence of the service name\<close>

text \<open>
  C10. Two props with the same stage and the same environment (region and account)
  give the same stack, whatever their service names: the same constructs with the same
  configurations, parameter names and values, the same grants and dependencies.
\<close>

theorem service_name_not_used:
  assumes "stage p1 = stage p2" and "env p1 = env p2"
  shows "EventHub p1 = EventHub p2"
  using assms
  by (simp add: EventHub_def Let_def events_table_def stack_region_def stack_account_def)

theorem service_name_not_used_witness:
  "serviceName example_props \<noteq> serviceName (example_props\<lparr>serviceName := ''billing''\<rparr>) \<and>
   EventHub example_props = EventHub (example_props\<lparr>serviceName := ''billing''\<rparr>)"
proof -
  have s: "stage example_props = stage (example_props\<lparr>serviceName := ''billing''\<rparr>)"
    and e: "env example_props = env (example_props\<lparr>serviceName := ''billing''\<rparr>)"
    by simp_all
  have "serviceName example_props \<noteq> serviceName (example_props\<lparr>serviceName := ''billing''\<rparr>)"
    by (simp add: example_props_def)
  with service_name_not_used [OF s e] show ?thesis
    by simp
qed

end
